theory Spec2Isabelle
  imports Complex_Main
begin

section \<open>URL summarizer: the function-style handler and the server\<close>

text \<open>
  The repository holds two entry points for one workflow (request intake, content fetch,
  content normalization, summarization call, response shaping): the single-invocation
  handler \<^verbatim>\<open>exports.handler\<close> of \<^verbatim>\<open>functions/summarize.js\<close> and the
  long-running server built with \<^verbatim>\<open>http.createServer\<close>. Both are embedded here as
  functions of the request and of an explicit runtime (the JSON parser, the URL parser and
  the network), and return the response together with the list of outbound requests they
  issued. Line numbers are those of \<^verbatim>\<open>functions/summarize.js\<close> as it stands in
  the sources, where the server's text follows the handler's from line 234 on.

  Strings are \<^typ>\<open>string\<close>: one \<^typ>\<open>char\<close> stands for one code unit of a
  JavaScript string, so \<^const>\<open>length\<close> counts what \<^verbatim>\<open>.length\<close> counts; code
  units above 255 are outside the model.
\<close>

subsection \<open>Content normalization (handler, lines 122--135)\<close>

text \<open>
  The whitespace class of \<^verbatim>\<open>\s\<close> and of \<^verbatim>\<open>String.prototype.trim\<close>: tab, line
  feed, vertical tab, form feed, carriage return, space and no-break space (the members
  of the class among the code units below 256).
\<close>

definition is_ws :: "char \<Rightarrow> bool" where
  "is_ws c = (c \<in> set [CHR 0x09, CHR 0x0A, CHR 0x0B, CHR 0x0C, CHR 0x0D, CHR 0x20, CHR 0xA0])"

text \<open>
  \<^verbatim>\<open>mainContent.replace(/<[^>]*>/g, ' ')\<close>: the scan goes left to right; at a
  \<^verbatim>\<open><\<close> the pattern matches up to the first \<^verbatim>\<open>>\<close> that follows, if there is one,
  and the scan resumes behind the match; anywhere else the character is kept.
\<close>

function replace_tags :: "string \<Rightarrow> string" where
  "replace_tags [] = []"
| "replace_tags (c # cs) =
     (if c = CHR ''<'' \<and> CHR ''>'' \<in> set cs
      then CHR '' '' # replace_tags (tl (dropWhile (\<lambda>x. x \<noteq> CHR ''>'') cs))
      else c # replace_tags cs)"
  by pat_completeness auto
termination
proof (relation "measure length")
  fix c :: char and cs :: string
  have "length (tl (dropWhile (\<lambda>x. x \<noteq> CHR ''>'') cs)) \<le> length cs"
    using length_dropWhile_le [of "\<lambda>x. x \<noteq> CHR ''>''" cs] by simp
  then show "(tl (dropWhile (\<lambda>x. x \<noteq> CHR ''>'') cs), c # cs) \<in> measure length"
    by simp
qed simp_all

text \<open>
  \<^verbatim>\<open>mainContent.replace(/\s+/g, ' ')\<close>: a whitespace character starts a match that
  takes the whole run.
\<close>

function replace_ws :: "string \<Rightarrow> string" where
  "replace_ws [] = []"
| "replace_ws (c # cs) =
     (if is_ws c then CHR '' '' # replace_ws (dropWhile is_ws cs) else c # replace_ws cs)"
  by pat_completeness auto
termination
proof (relation "measure length")
  fix c :: char and cs :: string
  show "(dropWhile is_ws cs, c # cs) \<in> measure length"
    using length_dropWhile_le [of is_ws cs] by simp
qed simp_all

text \<open>\<^verbatim>\<open>.trim()\<close> removes the whitespace at both ends.\<close>

definition trim :: "string \<Rightarrow> string" where
  "trim s = rev (dropWhile is_ws (rev (dropWhile is_ws s)))"

text \<open>
  Lines 123--135 on the text \<^verbatim>\<open>content.toString()\<close>; \<^verbatim>\<open>substring(0, 10000)\<close> is
  \<^term>\<open>take 10000\<close>.
\<close>

definition normalize_content :: "string \<Rightarrow> string" where
  "normalize_content content =
     (let mainContent = replace_tags content;
          mainContent = trim (replace_ws mainContent)
      in if length mainContent > 10000
         then take 10000 mainContent @ ''...''
         else mainContent)"

text \<open>
  Normal forms used in the proofs: no tag is left to match, every whitespace run is a
  single space, and neither end is whitespace.
\<close>

fun no_tag :: "string \<Rightarrow> bool" where
  "no_tag [] = True"
| "no_tag (c # cs) = ((c = CHR ''<'' \<longrightarrow> CHR ''>'' \<notin> set cs) \<and> no_tag cs)"

fun collapsed :: "string \<Rightarrow> bool" where
  "collapsed [] = True"
| "collapsed (c # cs) =
     ((is_ws c \<longrightarrow> c = CHR '' '' \<and> (cs = [] \<or> \<not> is_ws (hd cs))) \<and> collapsed cs)"

definition trimmed :: "string \<Rightarrow> bool" where
  "trimmed s = (s = [] \<or> (\<not> is_ws (hd s) \<and> \<not> is_ws (last s)))"

definition stages :: "string \<Rightarrow> string" where
  "stages s = trim (replace_ws (replace_tags s))"

subsection \<open>JavaScript values, errors and the runtime\<close>

text \<open>
  The values the code handles are what \<^verbatim>\<open>JSON.parse\<close> returns, plus
  \<^verbatim>\<open>undefined\<close> (the value of a missing property). A number is the rational it
  denotes (the code only tests numbers for zero and prints them). An object is the list
  of its own properties.
\<close>

datatype jsval =
    JUndefined
  | JNull
  | JBool bool
  | JNum rat
  | JStr string
  | JArr "jsval list"
  | JObj "(string \<times> jsval) list"

text \<open>
  What \<^verbatim>\<open>url.parse\<close> returns, as far as the code reads it; a missing part is
  \<^verbatim>\<open>null\<close> there and \<^const>\<open>None\<close> here.
\<close>

record parsed_url =
  url_protocol :: "string option"
  url_hostname :: "string option"
  url_port :: "string option"
  url_path :: "string option"
  url_pathname :: "string option"

text \<open>
  \<^verbatim>\<open>requestOptions\<close> of \<^verbatim>\<open>makeRequest\<close>, and the request as it reaches the
  network: the transport chosen (\<^verbatim>\<open>https\<close> or \<^verbatim>\<open>http\<close>), the options and the
  body written, if any (a string is written as it is, any other value as its JSON text).
\<close>

record request_options =
  req_hostname :: "string option"
  req_port :: "string + nat"
  req_path :: "string option"
  req_method :: string
  req_headers :: "(string \<times> string) list"

record wire =
  wire_secure :: bool
  wire_options :: request_options
  wire_body :: "jsval option"

text \<open>
  The upstream response \<^verbatim>\<open>res\<close> once its \<^verbatim>\<open>end\<close> event fires
  (\<^verbatim>\<open>responseData\<close> holds the whole body), and the two ways a request ends: the
  response callback, or the request's \<^verbatim>\<open>error\<close> event with its message. These
  are the two events \<^verbatim>\<open>makeRequest\<close> subscribes to; a request that never ends
  settles nothing and is not an outcome here.
\<close>

record incoming =
  res_statusCode :: nat
  res_headers :: "(string \<times> string) list"
  res_data :: string

datatype net_outcome = Responded incoming | Failed string

text \<open>
  What \<^verbatim>\<open>makeRequest\<close> resolves with, and the \<^verbatim>\<open>response\<close> object of its
  rejection for a status outside 200--299.
\<close>

record reply =
  rsp_data :: jsval
  rsp_status :: nat
  rsp_headers :: "(string \<times> string) list"

record failure =
  fail_status :: nat
  fail_data :: string
  fail_headers :: "(string \<times> string) list"

text \<open>
  A thrown or rejected value, by the properties the \<^verbatim>\<open>catch\<close> blocks read:
  \<^verbatim>\<open>error.response\<close>, whether \<^verbatim>\<open>error.request\<close> is present,
  \<^verbatim>\<open>error.message\<close> and \<^verbatim>\<open>error.stack\<close>. A promise is settled with a value or
  with such an error; an \<^verbatim>\<open>await\<close> of a rejected promise throws the error.
\<close>

record js_error =
  err_response :: "failure option"
  err_request :: bool
  err_message :: "string option"
  err_stack :: "string option"

datatype 'a promise = Resolved 'a | Rejected js_error

text \<open>
  The runtime the code runs on. \<^verbatim>\<open>JSON.parse\<close> returns a value or throws
  (\<^const>\<open>None\<close>); \<^verbatim>\<open>Number.prototype.toString\<close> and \<^verbatim>\<open>url.parse\<close> are the
  platform's; \<open>transport\<close> is the network behind \<^verbatim>\<open>protocol.request\<close>;
  \<open>request_cyclic\<close> says whether the platform's request object \<^verbatim>\<open>req\<close> holds a
  reference cycle, in which case \<^verbatim>\<open>JSON.stringify\<close> throws on a value that contains
  it; \<open>engine_text\<close> gives the message and the stack of an error the engine throws at
  a named operation.
\<close>

record runtime =
  JSON_parse :: "string \<Rightarrow> jsval option"
  Number_toString :: "rat \<Rightarrow> string"
  url_parse :: "string \<Rightarrow> parsed_url"
  transport :: "wire \<Rightarrow> net_outcome"
  request_cyclic :: bool
  engine_text :: "string \<Rightarrow> string \<times> string"

definition native :: "runtime \<Rightarrow> string \<Rightarrow> js_error" where
  "native rt site =
     \<lparr>err_response = None, err_request = False,
      err_message = Some (fst (engine_text rt site)),
      err_stack = Some (snd (engine_text rt site))\<rparr>"

text \<open>\<^verbatim>\<open>!value\<close> is \<^term>\<open>\<not> truthy value\<close>.\<close>

fun truthy :: "jsval \<Rightarrow> bool" where
  "truthy JUndefined = False"
| "truthy JNull = False"
| "truthy (JBool b) = b"
| "truthy (JNum q) = (q \<noteq> 0)"
| "truthy (JStr s) = (s \<noteq> [])"
| "truthy (JArr xs) = True"
| "truthy (JObj kvs) = True"

text \<open>
  Reading a property: \<^verbatim>\<open>value.name\<close> and the destructuring
  \<^verbatim>\<open>const { name: x } = value\<close> throw a TypeError on \<^verbatim>\<open>undefined\<close> and
  \<^verbatim>\<open>null\<close>; an object gives its own property or \<^verbatim>\<open>undefined\<close>; any other
  value gives \<^verbatim>\<open>undefined\<close> for the names the code reads (\<^verbatim>\<open>url\<close>,
  \<^verbatim>\<open>candidates\<close>, \<^verbatim>\<open>content\<close>, \<^verbatim>\<open>parts\<close>, \<^verbatim>\<open>text\<close>), none of which
  is a built-in property. \<^verbatim>\<open>value[0]\<close> is the first element of an array, the first
  character of a string, and the property \<^verbatim>\<open>"0"\<close> of an object.
\<close>

fun getField :: "runtime \<Rightarrow> jsval \<Rightarrow> string \<Rightarrow> jsval promise" where
  "getField rt JUndefined k = Rejected (native rt (''read '' @ k))"
| "getField rt JNull k = Rejected (native rt (''read '' @ k))"
| "getField rt (JObj kvs) k = Resolved (case map_of kvs k of Some v \<Rightarrow> v | None \<Rightarrow> JUndefined)"
| "getField rt v k = Resolved JUndefined"

fun getFirst :: "runtime \<Rightarrow> jsval \<Rightarrow> jsval promise" where
  "getFirst rt JUndefined = Rejected (native rt ''read 0'')"
| "getFirst rt JNull = Rejected (native rt ''read 0'')"
| "getFirst rt (JArr xs) = Resolved (case xs of [] \<Rightarrow> JUndefined | x # _ \<Rightarrow> x)"
| "getFirst rt (JStr s) = Resolved (case s of [] \<Rightarrow> JUndefined | c # _ \<Rightarrow> JStr [c])"
| "getFirst rt (JObj kvs) = Resolved (case map_of kvs ''0'' of Some v \<Rightarrow> v | None \<Rightarrow> JUndefined)"
| "getFirst rt v = Resolved JUndefined"

text \<open>
  \<^verbatim>\<open>content.toString()\<close>: a string is itself, an array joins the strings of its
  elements with commas (\<^verbatim>\<open>null\<close> as the empty string), an object is
  \<^verbatim>\<open>[object Object]\<close> unless an own property \<^verbatim>\<open>toString\<close> shadows the method
  (then the call throws), and \<^verbatim>\<open>null.toString()\<close> throws.
\<close>

fun toPrimitiveString :: "runtime \<Rightarrow> jsval \<Rightarrow> string option"
  and join :: "runtime \<Rightarrow> jsval list \<Rightarrow> string option" where
  "toPrimitiveString rt JUndefined = None"
| "toPrimitiveString rt JNull = None"
| "toPrimitiveString rt (JBool b) = Some (if b then ''true'' else ''false'')"
| "toPrimitiveString rt (JNum q) = Some (Number_toString rt q)"
| "toPrimitiveString rt (JStr s) = Some s"
| "toPrimitiveString rt (JArr xs) = join rt xs"
| "toPrimitiveString rt (JObj kvs) =
     (if ''toString'' \<in> fst ` set kvs then None else Some ''[object Object]'')"
| "join rt [] = Some []"
| "join rt (x # xs) =
     (case (case x of JUndefined \<Rightarrow> Some [] | JNull \<Rightarrow> Some [] | _ \<Rightarrow> toPrimitiveString rt x) of
        None \<Rightarrow> None
      | Some s \<Rightarrow>
          (if xs = [] then Some s
           else (case join rt xs of None \<Rightarrow> None | Some r \<Rightarrow> Some (s @ '','' @ r))))"

definition toString :: "runtime \<Rightarrow> jsval \<Rightarrow> string promise" where
  "toString rt v =
     (case toPrimitiveString rt v of
        None \<Rightarrow> Rejected (native rt ''toString'')
      | Some s \<Rightarrow> Resolved s)"

text \<open>\<^verbatim>\<open>s.includes(t)\<close>: \<open>t\<close> occurs in \<open>s\<close>.\<close>

fun str_includes :: "string \<Rightarrow> string \<Rightarrow> bool" where
  "str_includes [] t = (t = [])"
| "str_includes (c # cs) t = (take (length t) (c # cs) = t \<or> str_includes cs t)"

text \<open>
  \<^verbatim>\<open>JSON.stringify\<close> of an object literal: a property whose value is
  \<^verbatim>\<open>undefined\<close> is left out. Response bodies are kept as the value that is
  serialized.
\<close>

definition json_object :: "(string \<times> jsval) list \<Rightarrow> jsval" where
  "json_object props = JObj (filter (\<lambda>kv. snd kv \<noteq> JUndefined) props)"

definition optional :: "string option \<Rightarrow> jsval" where
  "optional s = (case s of None \<Rightarrow> JUndefined | Some t \<Rightarrow> JStr t)"

subsection \<open>makeRequest (lines 6--76 and 268--338, the same text in both files)\<close>

text \<open>
  The parameters \<^verbatim>\<open>options = {}\<close> and \<^verbatim>\<open>data = null\<close>. Lines 8--17 build the
  request options; lines 70--72 write the body when \<^verbatim>\<open>data\<close> is truthy.
\<close>

record options =
  opt_method :: "string option"
  opt_headers :: "(string \<times> string) list option"

definition build_wire :: "runtime \<Rightarrow> string \<Rightarrow> options \<Rightarrow> jsval \<Rightarrow> wire" where
  "build_wire rt requestUrl opts data =
     (let parsedUrl = url_parse rt requestUrl;
          secure = (url_protocol parsedUrl = Some ''https:'');
          requestOptions =
            \<lparr>req_hostname = url_hostname parsedUrl,
             req_port = (case url_port parsedUrl of
                           Some p \<Rightarrow> if p \<noteq> [] then Inl p else Inr (if secure then 443 else 80)
                         | None \<Rightarrow> Inr (if secure then 443 else 80)),
             req_path = url_path parsedUrl,
             req_method = (case opt_method opts of
                             Some m \<Rightarrow> if m \<noteq> [] then m else ''GET''
                           | None \<Rightarrow> ''GET''),
             req_headers = (case opt_headers opts of Some h \<Rightarrow> h | None \<Rightarrow> [])\<rparr>
      in \<lparr>wire_secure = secure, wire_options = requestOptions,
          wire_body = (if truthy data then Some data else None)\<rparr>)"

text \<open>The \<^verbatim>\<open>end\<close> callback, lines 26--60.\<close>

definition on_end :: "runtime \<Rightarrow> incoming \<Rightarrow> reply promise" where
  "on_end rt res =
     (if 200 \<le> res_statusCode res \<and> res_statusCode res < 300 then
        (let contentType = (case map_of (res_headers res) ''content-type'' of
                              Some v \<Rightarrow> v | None \<Rightarrow> [])
         in if str_includes contentType ''application/json'' then
              (case JSON_parse rt (res_data res) of
                 Some v \<Rightarrow>
                   Resolved \<lparr>rsp_data = v, rsp_status = res_statusCode res,
                             rsp_headers = res_headers res\<rparr>
               | None \<Rightarrow>
                   Resolved \<lparr>rsp_data = JStr (res_data res), rsp_status = res_statusCode res,
                             rsp_headers = res_headers res\<rparr>)
            else
              Resolved \<lparr>rsp_data = JStr (res_data res), rsp_status = res_statusCode res,
                        rsp_headers = res_headers res\<rparr>)
      else
        Rejected \<lparr>err_response = Some \<lparr>fail_status = res_statusCode res,
                                         fail_data = res_data res,
                                         fail_headers = res_headers res\<rparr>,
                  err_request = False, err_message = None, err_stack = None\<rparr>)"

text \<open>
  \<^verbatim>\<open>makeRequest\<close> returns the settled promise and the requests that reached the
  network. \<^verbatim>\<open>url.parse\<close> throws a TypeError on an argument that is not a string;
  inside the promise executor this rejects the promise before any request is made. On a
  string the request is taken to be set up and handed to the network: an exception that
  \<^verbatim>\<open>url.parse\<close> or \<^verbatim>\<open>protocol.request\<close> may raise for a malformed URL
  string is not modelled.
\<close>

definition makeRequest :: "runtime \<Rightarrow> jsval \<Rightarrow> options \<Rightarrow> jsval \<Rightarrow> reply promise \<times> wire list" where
  "makeRequest rt requestUrl opts data =
     (case requestUrl of
        JStr u \<Rightarrow>
          (let w = build_wire rt u opts data
           in (case transport rt w of
                 Responded res \<Rightarrow> on_end rt res
               | Failed msg \<Rightarrow>
                   Rejected \<lparr>err_response = None, err_request = True,
                             err_message = Some msg, err_stack = None\<rparr>,
               [w]))
      | _ \<Rightarrow> (Rejected (native rt ''url.parse''), []))"

subsection \<open>The summarization call\<close>

definition and_then :: "'a promise \<Rightarrow> ('a \<Rightarrow> 'b promise) \<Rightarrow> 'b promise" where
  "and_then p f = (case p of Resolved x \<Rightarrow> f x | Rejected e \<Rightarrow> Rejected e)"

text \<open>
  \<^verbatim>\<open>geminiResponse.data.candidates[0].content.parts[0].text\<close> (lines 178 and 438).
\<close>

definition extract_summary :: "runtime \<Rightarrow> reply \<Rightarrow> jsval promise" where
  "extract_summary rt geminiResponse =
     and_then (getField rt (rsp_data geminiResponse) ''candidates'') (\<lambda>candidates.
     and_then (getFirst rt candidates) (\<lambda>candidate.
     and_then (getField rt candidate ''content'') (\<lambda>content.
     and_then (getField rt content ''parts'') (\<lambda>parts.
     and_then (getFirst rt parts) (\<lambda>part.
     getField rt part ''text'')))))"

text \<open>The prompt (lines 152 and 425) and the request body (lines 162--174, 420--434).\<close>

definition prompt_for :: "string \<Rightarrow> string" where
  "prompt_for mainContent =
     ''Summarize the following web page content in one concise sentence:''
       @ [CHR 0x0A, CHR 0x0A] @ mainContent"

definition gemini_payload :: "string \<Rightarrow> jsval" where
  "gemini_payload prompt =
     JObj [(''contents'', JArr [JObj [(''parts'', JArr [JObj [(''text'', JStr prompt)]])]]),
           (''generationConfig'',
              JObj [(''temperature'', JNum (2 / 10)), (''maxOutputTokens'', JNum 100)])]"

definition no_options :: options where
  "no_options = \<lparr>opt_method = None, opt_headers = None\<rparr>"

subsection \<open>The function-style handler (lines 78--233)\<close>

record http_response =
  statusCode :: nat
  headers :: "(string \<times> string) list"
  body :: "jsval option"

record event =
  httpMethod :: string
  event_body :: string

record env =
  GEMINI_API_KEY :: "string option"
  GEMINI_API_URL :: "string option"

definition cors_headers :: "(string \<times> string) list" where
  "cors_headers =
     [(''Access-Control-Allow-Origin'', ''*''),
      (''Access-Control-Allow-Headers'', ''Content-Type''),
      (''Access-Control-Allow-Methods'', ''POST, OPTIONS'')]"

definition default_gemini_url :: string where
  "default_gemini_url =
     ''https://generativelanguage.googleapis.com/v1beta/models/gemini-1.0-pro:generateContent''"

definition handler_request_url :: "env \<Rightarrow> string \<Rightarrow> string" where
  "handler_request_url e geminiApiKey =
     (let geminiApiUrl = (case GEMINI_API_URL e of
                            Some u \<Rightarrow> if u \<noteq> [] then u else default_gemini_url
                          | None \<Rightarrow> default_gemini_url)
      in geminiApiUrl @ ''?key='' @ geminiApiKey)"

definition handler_options :: options where
  "handler_options =
     \<lparr>opt_method = Some ''POST'',
      opt_headers = Some [(''Content-Type'', ''application/json'')]\<rparr>"

text \<open>Lines 137--191: the credential check, the summarization call and the response.\<close>

definition handler_summarize ::
  "runtime \<Rightarrow> env \<Rightarrow> jsval \<Rightarrow> string \<Rightarrow> wire list \<Rightarrow> http_response promise \<times> wire list" where
  "handler_summarize rt e targetUrl mainContent calls =
     (case GEMINI_API_KEY e of
        None \<Rightarrow>
          (Resolved \<lparr>statusCode = 500, headers = cors_headers,
                     body = Some (json_object
                       [(''error'', JStr ''GEMINI_API_KEY environment variable is not set'')])\<rparr>,
           calls)
      | Some geminiApiKey \<Rightarrow>
          if geminiApiKey = [] then
            (Resolved \<lparr>statusCode = 500, headers = cors_headers,
                       body = Some (json_object
                         [(''error'', JStr ''GEMINI_API_KEY environment variable is not set'')])\<rparr>,
             calls)
          else
            (case makeRequest rt (JStr (handler_request_url e geminiApiKey)) handler_options
                    (gemini_payload (prompt_for mainContent)) of
               (Rejected err, calls2) \<Rightarrow> (Rejected err, calls @ calls2)
             | (Resolved geminiResponse, calls2) \<Rightarrow>
                 (case extract_summary rt geminiResponse of
                    Rejected err \<Rightarrow> (Rejected err, calls @ calls2)
                  | Resolved summary \<Rightarrow>
                      (Resolved \<lparr>statusCode = 200,
                                 headers = cors_headers @ [(''Content-Type'', ''application/json'')],
                                 body = Some (json_object
                                   [(''url'', targetUrl), (''summary'', summary)])\<rparr>,
                       calls @ calls2))))"

text \<open>The \<^verbatim>\<open>try\<close> block, lines 104--192.\<close>

definition handler_try :: "runtime \<Rightarrow> env \<Rightarrow> event \<Rightarrow> http_response promise \<times> wire list" where
  "handler_try rt e ev =
     (case JSON_parse rt (event_body ev) of
        None \<Rightarrow> (Rejected (native rt ''JSON.parse''), [])
      | Some requestData \<Rightarrow>
          (case getField rt requestData ''url'' of
             Rejected err \<Rightarrow> (Rejected err, [])
           | Resolved targetUrl \<Rightarrow>
               if \<not> truthy targetUrl then
                 (Resolved \<lparr>statusCode = 400, headers = cors_headers,
                            body = Some (json_object [(''error'', JStr ''URL is required'')])\<rparr>,
                  [])
               else
                 (case makeRequest rt targetUrl no_options JNull of
                    (Rejected err, calls) \<Rightarrow> (Rejected err, calls)
                  | (Resolved response, calls) \<Rightarrow>
                      (case toString rt (rsp_data response) of
                         Rejected err \<Rightarrow> (Rejected err, calls)
                       | Resolved content \<Rightarrow>
                           handler_summarize rt e targetUrl (normalize_content content) calls))))"

text \<open>
  The \<^verbatim>\<open>catch\<close> block, lines 193--232. Line 195 serializes the error for the log
  before any response is built; a throw there rejects the handler's promise.
\<close>

definition handler_catch :: "runtime \<Rightarrow> js_error \<Rightarrow> http_response promise" where
  "handler_catch rt error =
     (if err_request error \<and> request_cyclic rt then Rejected (native rt ''JSON.stringify'')
      else
        (case err_response error of
           Some response \<Rightarrow>
             Resolved \<lparr>statusCode = (if fail_status response = 0 then 500 else fail_status response),
                       headers = cors_headers,
                       body = Some (json_object
                         [(''error'', JStr ''Error processing request''),
                          (''details'', JStr (fail_data response)),
                          (''message'', optional (err_message error)),
                          (''stack'', optional (err_stack error))])\<rparr>
         | None \<Rightarrow>
             if err_request error then
               Resolved \<lparr>statusCode = 500, headers = cors_headers,
                         body = Some (json_object
                           [(''error'', JStr ''Error making request''),
                            (''details'', JStr ''No response received''),
                            (''message'', optional (err_message error)),
                            (''stack'', optional (err_stack error))])\<rparr>
             else
               Resolved \<lparr>statusCode = 500, headers = cors_headers,
                         body = Some (json_object
                           [(''error'', JStr ''Unexpected error''),
                            (''message'', optional (err_message error)),
                            (''stack'', optional (err_stack error))])\<rparr>))"

definition handler :: "runtime \<Rightarrow> env \<Rightarrow> event \<Rightarrow> http_response promise \<times> wire list" where
  "handler rt e ev =
     (if httpMethod ev = ''OPTIONS'' then
        (Resolved \<lparr>statusCode = 204, headers = cors_headers, body = None\<rparr>, [])
      else if httpMethod ev \<noteq> ''POST'' then
        (Resolved \<lparr>statusCode = 405, headers = cors_headers,
                   body = Some (json_object [(''error'', JStr ''Method not allowed'')])\<rparr>,
         [])
      else
        (case handler_try rt e ev of
           (Resolved r, calls) \<Rightarrow> (Resolved r, calls)
         | (Rejected error, calls) \<Rightarrow> (handler_catch rt error, calls)))"

subsection \<open>The server (lines 341--480)\<close>

text \<open>
  The request with its body as the \<^verbatim>\<open>data\<close> events delivered it, and the two
  environment variables, which lines 254--255 assign at startup (\<^verbatim>\<open>process.env\<close>
  holds strings).
\<close>

record server_request =
  request_method :: string
  request_url :: string
  request_body :: string

record server_env =
  api_key :: string
  api_url :: string

definition server_headers :: "(string \<times> string) list" where
  "server_headers =
     [(''Access-Control-Allow-Origin'', ''*''),
      (''Access-Control-Allow-Methods'', ''GET, POST, OPTIONS''),
      (''Access-Control-Allow-Headers'', ''Content-Type'')]"

definition json_headers :: "(string \<times> string) list" where
  "json_headers = server_headers @ [(''Content-Type'', ''application/json'')]"

definition server_options :: "server_env \<Rightarrow> options" where
  "server_options cfg =
     \<lparr>opt_method = Some ''POST'',
      opt_headers = Some [(''Content-Type'', ''application/json''),
                          (''x-goog-api-key'', api_key cfg)]\<rparr>"

text \<open>The \<^verbatim>\<open>try\<close> block, lines 371--447.\<close>

definition server_try ::
  "runtime \<Rightarrow> server_env \<Rightarrow> server_request \<Rightarrow> http_response promise \<times> wire list" where
  "server_try rt cfg req =
     (case JSON_parse rt (request_body req) of
        None \<Rightarrow>
          (Resolved \<lparr>statusCode = 400, headers = json_headers,
                     body = Some (json_object
                       [(''error'', JStr ''Invalid JSON in request body'')])\<rparr>,
           [])
      | Some requestData \<Rightarrow>
          (case getField rt requestData ''url'' of
             Rejected err \<Rightarrow> (Rejected err, [])
           | Resolved targetUrl \<Rightarrow>
               if \<not> truthy targetUrl then
                 (Resolved \<lparr>statusCode = 400, headers = json_headers,
                            body = Some (json_object [(''error'', JStr ''URL is required'')])\<rparr>,
                  [])
               else
                 (case makeRequest rt targetUrl no_options JNull of
                    (Rejected err, calls) \<Rightarrow> (Rejected err, calls)
                  | (Resolved response, calls) \<Rightarrow>
                      (case toString rt (rsp_data response) of
                         Rejected err \<Rightarrow> (Rejected err, calls)
                       | Resolved mainContent \<Rightarrow>
                           (case makeRequest rt (JStr (api_url cfg)) (server_options cfg)
                                   (gemini_payload (prompt_for mainContent)) of
                              (Rejected err, calls2) \<Rightarrow> (Rejected err, calls @ calls2)
                            | (Resolved geminiResponse, calls2) \<Rightarrow>
                                (case extract_summary rt geminiResponse of
                                   Rejected err \<Rightarrow> (Rejected err, calls @ calls2)
                                 | Resolved summary \<Rightarrow>
                                     (Resolved \<lparr>statusCode = 200, headers = json_headers,
                                                body = Some (json_object
                                                  [(''url'', targetUrl), (''summary'', summary)])\<rparr>,
                                      calls @ calls2)))))))"

text \<open>The \<^verbatim>\<open>catch\<close> block, lines 448--472.\<close>

definition server_catch :: "js_error \<Rightarrow> http_response" where
  "server_catch error =
     \<lparr>statusCode = 500, headers = json_headers,
      body = Some
        (case err_response error of
           Some response \<Rightarrow>
             json_object [(''error'', JStr ''Error processing request''),
                          (''details'', JStr (fail_data response))]
         | None \<Rightarrow>
             if err_request error then
               json_object [(''error'', JStr ''No response received from server''),
                            (''details'', optional (err_message error))]
             else
               json_object [(''error'', JStr ''Error setting up request''),
                            (''details'', optional (err_message error))])\<rparr>"

definition welcome_message :: jsval where
  "welcome_message =
     JObj [(''message'', JStr ''Welcome to the URL Summarizer API''),
           (''endpoints'',
              JObj [(''summarize'',
                     JStr (''POST /summarize with {'' @ [CHR 0x22] @ ''url'' @ [CHR 0x22]
                           @ '': '' @ [CHR 0x22] @ ''https://example.com'' @ [CHR 0x22] @ ''}''))])]"

definition server :: "runtime \<Rightarrow> server_env \<Rightarrow> server_request \<Rightarrow> http_response \<times> wire list" where
  "server rt cfg req =
     (if request_method req = ''OPTIONS'' then
        (\<lparr>statusCode = 204, headers = server_headers, body = None\<rparr>, [])
      else
        (let parsedUrl = url_parse rt (request_url req)
         in if url_pathname parsedUrl = Some ''/'' \<and> request_method req = ''GET'' then
              (\<lparr>statusCode = 200, headers = json_headers, body = Some welcome_message\<rparr>, [])
            else if url_pathname parsedUrl = Some ''/summarize'' \<and> request_method req = ''POST'' then
              (case server_try rt cfg req of
                 (Resolved r, calls) \<Rightarrow> (r, calls)
               | (Rejected error, calls) \<Rightarrow> (server_catch error, calls))
            else
              (\<lparr>statusCode = 404, headers = json_headers,
                body = Some (json_object [(''error'', JStr ''Not found'')])\<rparr>,
               [])))"

text \<open>
  The status and the body of the response a handler invocation returns; \<^const>\<open>None\<close>
  for the status when the invocation's promise is rejected.
\<close>

definition status_of :: "http_response promise \<Rightarrow> nat option" where
  "status_of p = (case p of Resolved r \<Rightarrow> Some (statusCode r) | Rejected e \<Rightarrow> None)"

definition body_of :: "http_response promise \<Rightarrow> jsval option" where
  "body_of p = (case p of Resolved r \<Rightarrow> body r | Rejected e \<Rightarrow> None)"

subsection \<open>A concrete runtime\<close>

text \<open>
  A small world on which the definitions are evaluated: a page that exists, a page that
  does not, a host that cannot be reached, the summarization service, and an endpoint that
  refuses with status 429. Its parser knows the bodies that occur in it and rejects every
  other text; its URL parser splits scheme, host and path of the plain URLs used here.
\<close>

definition page_html :: string where
  "page_html = ''<html><body>Hello <b>World</b></body></html>''"

definition gemini_json :: string where
  \<open>gemini_json = ''{"candidates":[{"content":{"parts":[{"text":"A greeting page."}]}}]}''\<close>

definition null_request :: string where
  "null_request = ''null''"

definition page_request :: string where
  \<open>page_request = ''{"url":"http://example.com/page"}''\<close>

definition gone_request :: string where
  \<open>gone_request = ''{"url":"http://example.com/gone"}''\<close>

definition data_request :: string where
  \<open>data_request = ''{"url":"http://example.com/data"}''\<close>

definition down_request :: string where
  \<open>down_request = ''{"url":"http://down.example/"}''\<close>

definition empty_url_request :: string where
  \<open>empty_url_request = ''{"url":""}''\<close>

definition fixture_parse :: "string \<Rightarrow> jsval option" where
  "fixture_parse s =
     (if s = null_request then Some JNull
      else if s = ''{}'' then Some (JObj [])
      else if s = empty_url_request then Some (JObj [(''url'', JStr [])])
      else if s = page_request then Some (JObj [(''url'', JStr ''http://example.com/page'')])
      else if s = gone_request then Some (JObj [(''url'', JStr ''http://example.com/gone'')])
      else if s = data_request then Some (JObj [(''url'', JStr ''http://example.com/data'')])
      else if s = down_request then Some (JObj [(''url'', JStr ''http://down.example/'')])
      else if s = gemini_json
        then Some (JObj [(''candidates'',
               JArr [JObj [(''content'',
                 JObj [(''parts'', JArr [JObj [(''text'', JStr ''A greeting page.'')]])])]])])
      else None)"

definition fixture_url_parse :: "string \<Rightarrow> parsed_url" where
  "fixture_url_parse u =
     (let scheme = (if take 8 u = ''https://'' then Some ''https:''
                    else if take 7 u = ''http://'' then Some ''http:'' else None);
          rest = (case scheme of Some p \<Rightarrow> drop (length p + 2) u | None \<Rightarrow> u);
          host = (case scheme of
                    Some p \<Rightarrow> Some (takeWhile (\<lambda>c. c \<noteq> CHR ''/'') rest) | None \<Rightarrow> None);
          path = (case scheme of
                    Some p \<Rightarrow> dropWhile (\<lambda>c. c \<noteq> CHR ''/'') rest | None \<Rightarrow> rest)
      in \<lparr>url_protocol = scheme, url_hostname = host, url_port = None,
          url_path = Some path,
          url_pathname = Some (takeWhile (\<lambda>c. c \<noteq> CHR ''?'') path)\<rparr>)"

definition fixture_transport :: "wire \<Rightarrow> net_outcome" where
  "fixture_transport w =
     (let host = req_hostname (wire_options w); path = req_path (wire_options w)
      in if host = Some ''example.com'' then
           (if path = Some ''/page'' then
              Responded \<lparr>res_statusCode = 200,
                         res_headers = [(''content-type'', ''text/html'')],
                         res_data = page_html\<rparr>
            else if path = Some ''/data'' then
              Responded \<lparr>res_statusCode = 200,
                         res_headers = [(''content-type'', ''application/json; charset=utf-8'')],
                         res_data = ''{oops''\<rparr>
            else
              Responded \<lparr>res_statusCode = 404,
                         res_headers = [(''content-type'', ''text/plain'')],
                         res_data = ''Not Found''\<rparr>)
         else if host = Some ''generativelanguage.googleapis.com'' then
           Responded \<lparr>res_statusCode = 200,
                      res_headers = [(''content-type'', ''application/json; charset=UTF-8'')],
                      res_data = gemini_json\<rparr>
         else if host = Some ''quota.example'' then
           Responded \<lparr>res_statusCode = 429,
                      res_headers = [(''content-type'', ''text/plain'')],
                      res_data = ''Too Many Requests''\<rparr>
         else Failed ''getaddrinfo ENOTFOUND'')"

definition fixture :: runtime where
  "fixture =
     \<lparr>JSON_parse = fixture_parse,
      Number_toString = (\<lambda>q. ''0''),
      url_parse = fixture_url_parse,
      transport = fixture_transport,
      request_cyclic = True,
      engine_text = (\<lambda>site. (''failed: '' @ site, ''Error: failed: '' @ site))\<rparr>"

definition fixture_env :: env where
  "fixture_env = \<lparr>GEMINI_API_KEY = Some ''test-key'', GEMINI_API_URL = None\<rparr>"

definition fixture_server_env :: server_env where
  "fixture_server_env = \<lparr>api_key = ''test-key'', api_url = default_gemini_url\<rparr>"



definition post_event :: "string \<Rightarrow> event" where
  "post_event b = \<lparr>httpMethod = ''POST'', event_body = b\<rparr>"

definition post_request :: "string \<Rightarrow> server_request" where
  "post_request b = \<lparr>request_method = ''POST'', request_url = ''/summarize'', request_body = b\<rparr>"



subsection \<open>Lemmas on the normalizer\<close>

lemma is_ws_simps [simp]:
  "is_ws (CHR '' '')" "\<not> is_ws (CHR ''<'')" "\<not> is_ws (CHR ''>'')" "\<not> is_ws (CHR ''.'')"
  by (simp_all add: is_ws_def)

lemma set_tl_dropWhile: "set (tl (dropWhile P cs)) \<subseteq> set cs"
proof -
  have "set (tl xs) \<subseteq> set xs" for xs :: "'a list"
    by (cases xs) auto
  then have "set (tl (dropWhile P cs)) \<subseteq> set (dropWhile P cs)" .
  also have "\<dots> \<subseteq> set cs"
    by (auto dest: set_dropWhileD)
  finally show ?thesis .
qed

lemma set_replace_tags: "set (replace_tags s) \<subseteq> insert (CHR '' '') (set s)"
proof (induction s rule: replace_tags.induct)
  case 1
  show ?case by simp
next
  case (2 c cs)
  show ?case
  proof (cases "c = CHR ''<'' \<and> CHR ''>'' \<in> set cs")
    case True
    let ?T = "tl (dropWhile (\<lambda>x. x \<noteq> CHR ''>'') cs)"
    have eq: "replace_tags (c # cs) = CHR '' '' # replace_tags ?T"
      using True by simp
    have "set (replace_tags ?T) \<subseteq> insert (CHR '' '') (set ?T)"
      using 2(1) True by blast
    moreover have "set ?T \<subseteq> set cs"
      by (rule set_tl_dropWhile)
    ultimately have "set (replace_tags ?T) \<subseteq> insert (CHR '' '') (set cs)"
      by blast
    then show ?thesis
      unfolding eq by auto
  next
    case False
    have eq: "replace_tags (c # cs) = c # replace_tags cs"
      using False by simp
    have "set (replace_tags cs) \<subseteq> insert (CHR '' '') (set cs)"
      using 2(2) False by blast
    then show ?thesis
      unfolding eq by auto
  qed
qed

lemma replace_tags_first:
  assumes "CHR ''<'' \<notin> set pre" and "CHR ''>'' \<notin> set inner"
  shows "replace_tags (pre @ CHR ''<'' # inner @ CHR ''>'' # rest) = pre @ CHR '' '' # replace_tags rest"
  using assms(1)
proof (induction pre)
  case Nil
  have "dropWhile (\<lambda>x. x \<noteq> CHR ''>'') (inner @ CHR ''>'' # rest) = CHR ''>'' # rest"
  proof -
    have "\<And>x. x \<in> set inner \<Longrightarrow> x \<noteq> CHR ''>''"
      using assms(2) by blast
    then have "dropWhile (\<lambda>x. x \<noteq> CHR ''>'') (inner @ CHR ''>'' # rest)
        = dropWhile (\<lambda>x. x \<noteq> CHR ''>'') (CHR ''>'' # rest)"
      by (rule dropWhile_append2)
    then show ?thesis by simp
  qed
  then show ?case by simp
next
  case (Cons a pre)
  then show ?case by auto
qed

lemma no_tag_replace_id: "no_tag u \<Longrightarrow> replace_tags u = u"
  by (induction u) auto

lemma no_tag_append:
  "no_tag (xs @ ys) = (no_tag xs \<and> no_tag ys \<and> (CHR ''<'' \<in> set xs \<longrightarrow> CHR ''>'' \<notin> set ys))"
  by (induction xs) auto

lemma no_tag_nth:
  assumes "\<not> (\<exists>i j. i < j \<and> j < length u \<and> u ! i = CHR ''<'' \<and> u ! j = CHR ''>'')"
  shows "no_tag u"
  using assms
proof (induction u)
  case Nil
  show ?case by simp
next
  case (Cons c cs)
  have tl: "\<not> (\<exists>i j. i < j \<and> j < length cs \<and> cs ! i = CHR ''<'' \<and> cs ! j = CHR ''>'')"
  proof
    assume "\<exists>i j. i < j \<and> j < length cs \<and> cs ! i = CHR ''<'' \<and> cs ! j = CHR ''>''"
    then obtain i j where "i < j" "j < length cs" "cs ! i = CHR ''<''" "cs ! j = CHR ''>''"
      by blast
    then have "Suc i < Suc j \<and> Suc j < length (c # cs) \<and> (c # cs) ! Suc i = CHR ''<''
        \<and> (c # cs) ! Suc j = CHR ''>''"
      by simp
    with Cons.prems show False by blast
  qed
  have hd: "c = CHR ''<'' \<longrightarrow> CHR ''>'' \<notin> set cs"
  proof (intro impI notI)
    assume c: "c = CHR ''<''" and "CHR ''>'' \<in> set cs"
    then obtain j where "j < length cs" "cs ! j = CHR ''>''"
      by (auto simp: in_set_conv_nth)
    with c have "0 < Suc j \<and> Suc j < length (c # cs) \<and> (c # cs) ! 0 = CHR ''<''
        \<and> (c # cs) ! Suc j = CHR ''>''"
      by simp
    with Cons.prems show False by blast
  qed
  from Cons.IH [OF tl] hd show ?case by simp
qed

lemma no_tag_replace_tags: "no_tag (replace_tags s)"
proof (induction s rule: replace_tags.induct)
  case 1
  show ?case by simp
next
  case (2 c cs)
  show ?case
  proof (cases "c = CHR ''<'' \<and> CHR ''>'' \<in> set cs")
    case True
    with 2 show ?thesis by simp
  next
    case False
    have "c = CHR ''<'' \<Longrightarrow> CHR ''>'' \<notin> set (replace_tags cs)"
      using False set_replace_tags [of cs] by auto
    with False 2 show ?thesis by auto
  qed
qed

lemma set_replace_ws: "set (replace_ws s) \<subseteq> insert (CHR '' '') (set s)"
proof (induction s rule: replace_ws.induct)
  case 1
  show ?case by simp
next
  case (2 c cs)
  have "set (dropWhile is_ws cs) \<subseteq> set cs"
    by (auto dest: set_dropWhileD)
  with 2 show ?case by (cases "is_ws c") auto
qed

lemma no_tag_dropWhile: "no_tag s \<Longrightarrow> no_tag (dropWhile P s)"
  using no_tag_append [of "takeWhile P s" "dropWhile P s"] by simp

lemma no_tag_take: "no_tag s \<Longrightarrow> no_tag (take n s)"
  using no_tag_append [of "take n s" "drop n s"] by simp

lemma rev_dropWhile_rev_prefix: "rev (dropWhile P (rev s)) @ rev (takeWhile P (rev s)) = s"
proof -
  have "rev (takeWhile P (rev s) @ dropWhile P (rev s)) = s" by simp
  then show ?thesis by (simp only: rev_append)
qed

lemma no_tag_dropEnd: "no_tag s \<Longrightarrow> no_tag (rev (dropWhile P (rev s)))"
  using no_tag_append [of "rev (dropWhile P (rev s))" "rev (takeWhile P (rev s))"]
  by (simp add: rev_dropWhile_rev_prefix)

lemma no_tag_replace_ws: "no_tag s \<Longrightarrow> no_tag (replace_ws s)"
proof (induction s rule: replace_ws.induct)
  case 1
  show ?case by simp
next
  case (2 c cs)
  show ?case
  proof (cases "is_ws c")
    case True
    with 2 show ?thesis by (simp add: no_tag_dropWhile)
  next
    case False
    have "c = CHR ''<'' \<Longrightarrow> CHR ''>'' \<notin> set (replace_ws cs)"
      using 2(3) set_replace_ws [of cs] by auto
    with False 2 show ?thesis by auto
  qed
qed

lemma no_tag_trim: "no_tag s \<Longrightarrow> no_tag (trim s)"
  by (simp add: trim_def no_tag_dropEnd no_tag_dropWhile)

lemma collapsed_replace_id: "collapsed u \<Longrightarrow> replace_ws u = u"
proof (induction u)
  case Nil
  show ?case by simp
next
  case (Cons c cs)
  show ?case
  proof (cases "is_ws c")
    case True
    with Cons.prems have c: "c = CHR '' ''" and nxt: "cs = [] \<or> \<not> is_ws (hd cs)"
      by simp_all
    from nxt have "dropWhile is_ws cs = cs"
      by (simp add: dropWhile_eq_self_iff)
    with True c Cons show ?thesis by simp
  next
    case False
    with Cons show ?thesis by simp
  qed
qed

lemma replace_ws_hd: "s \<noteq> [] \<Longrightarrow> \<not> is_ws (hd s) \<Longrightarrow> hd (replace_ws s) = hd s \<and> replace_ws s \<noteq> []"
  by (cases s) simp_all

lemma replace_ws_Nil_iff [simp]: "replace_ws s = [] \<longleftrightarrow> s = []"
  by (cases s) simp_all

lemma collapsed_replace_ws: "collapsed (replace_ws s)"
proof (induction s rule: replace_ws.induct)
  case 1
  show ?case by simp
next
  case (2 c cs)
  show ?case
  proof (cases "is_ws c")
    case True
    let ?D = "dropWhile is_ws cs"
    have "replace_ws ?D = [] \<or> \<not> is_ws (hd (replace_ws ?D))"
    proof (cases "?D = []")
      case True
      then have "replace_ws ?D = []" by (simp only: replace_ws.simps)
      then show ?thesis ..
    next
      case False
      have "\<not> is_ws (hd ?D)"
        using hd_dropWhile [OF False] .
      with replace_ws_hd [OF False this] show ?thesis
        by (simp only:) blast
    qed
    moreover have "collapsed (replace_ws ?D)"
      using 2(1) True by blast
    ultimately show ?thesis
      using True by simp
  next
    case False
    moreover have "collapsed (replace_ws cs)"
      using 2(2) False by blast
    ultimately show ?thesis by simp
  qed
qed

lemma collapsed_appendD: "collapsed (xs @ ys) \<Longrightarrow> collapsed xs \<and> collapsed ys"
proof (induction xs)
  case Nil
  then show ?case by simp
next
  case (Cons c cs)
  then show ?case by (cases cs) auto
qed

lemma collapsed_appendI:
  "collapsed xs \<Longrightarrow> collapsed ys \<Longrightarrow> ys \<noteq> [] \<Longrightarrow> \<not> is_ws (hd ys) \<Longrightarrow> collapsed (xs @ ys)"
proof (induction xs)
  case Nil
  then show ?case by simp
next
  case (Cons c cs)
  then show ?case by (cases cs) auto
qed

lemma collapsed_dropWhile: "collapsed s \<Longrightarrow> collapsed (dropWhile P s)"
  using collapsed_appendD [of "takeWhile P s" "dropWhile P s"] by simp

lemma collapsed_take: "collapsed s \<Longrightarrow> collapsed (take n s)"
  using collapsed_appendD [of "take n s" "drop n s"] by simp

lemma collapsed_dropEnd: "collapsed s \<Longrightarrow> collapsed (rev (dropWhile P (rev s)))"
  using collapsed_appendD [of "rev (dropWhile P (rev s))" "rev (takeWhile P (rev s))"]
  by (simp add: rev_dropWhile_rev_prefix)

lemma collapsed_trim: "collapsed s \<Longrightarrow> collapsed (trim s)"
  by (simp add: trim_def collapsed_dropEnd collapsed_dropWhile)

lemma trimmed_trim_id: "trimmed u \<Longrightarrow> trim u = u"
proof (cases "u = []")
  case True
  then show ?thesis by (simp add: trim_def)
next
  case False
  assume "trimmed u"
  with False have h: "\<not> is_ws (hd u)" and l: "\<not> is_ws (last u)"
    by (simp_all add: trimmed_def)
  from False h have d: "dropWhile is_ws u = u"
    by (simp add: dropWhile_eq_self_iff)
  from False l have "dropWhile is_ws (rev u) = rev u"
    by (simp add: dropWhile_eq_self_iff hd_rev)
  with d show ?thesis by (simp add: trim_def)
qed

lemma trimmed_trim: "trimmed (trim s)"
proof -
  let ?x = "dropWhile is_ws s"
  let ?y = "dropWhile is_ws (rev ?x)"
  show ?thesis
  proof (cases "?y = []")
    case True
    then show ?thesis by (simp add: trim_def trimmed_def)
  next
    case False
    have x: "?x \<noteq> []"
    proof
      assume "?x = []"
      then have "?y = []" by (simp only: rev.simps dropWhile.simps)
      with False show False ..
    qed
    have hx: "\<not> is_ws (hd ?x)"
      using hd_dropWhile [OF x] .
    have hy: "\<not> is_ws (hd ?y)"
      using hd_dropWhile [OF False] .
    have "rev ?y @ rev (takeWhile is_ws (rev ?x)) = ?x"
      by (rule rev_dropWhile_rev_prefix)
    then have "hd ?x = hd (rev ?y @ rev (takeWhile is_ws (rev ?x)))" by simp
    also have "\<dots> = hd (rev ?y)" using False by simp
    finally have "\<not> is_ws (hd (rev ?y))" using hx by simp
    moreover have "last (rev ?y) = hd ?y" using False by (simp add: last_rev)
    ultimately show ?thesis
      using False hy unfolding trim_def trimmed_def by simp
  qed
qed

lemma trim_sandwich:
  assumes "\<forall>c\<in>set l. is_ws c" and "\<forall>c\<in>set r. is_ws c"
    and "m = [] \<or> (\<not> is_ws (hd m) \<and> \<not> is_ws (last m))"
  shows "trim (l @ m @ r) = m"
proof (cases "m = []")
  case True
  with assms(1,2) have "\<forall>x\<in>set (l @ m @ r). is_ws x" by auto
  then have d: "dropWhile is_ws (l @ m @ r) = []"
    by (simp only: dropWhile_eq_Nil_conv)
  show ?thesis
    unfolding trim_def d using True by simp
next
  case False
  with assms(3) have h: "\<not> is_ws (hd m)" and e: "\<not> is_ws (last m)" by simp_all
  have "dropWhile is_ws (l @ m @ r) = dropWhile is_ws (m @ r)"
    using assms(1) by simp
  also have "\<dots> = m @ r"
    using False h by (cases m) simp_all
  finally have d: "dropWhile is_ws (l @ m @ r) = m @ r" .
  have "dropWhile is_ws (rev r @ rev m) = dropWhile is_ws (rev m)"
    by (rule dropWhile_append2) (use assms(2) in simp)
  also have "\<dots> = rev m"
    using False e by (simp add: dropWhile_eq_self_iff hd_rev)
  finally show ?thesis
    using d by (simp add: trim_def)
qed

lemma replace_ws_no_ws: "\<forall>c\<in>set u. \<not> is_ws c \<Longrightarrow> replace_ws u = u"
  by (induction u) simp_all

lemma replace_ws_run:
  assumes "\<forall>c\<in>set pre. \<not> is_ws c" and "run \<noteq> []" and "\<forall>c\<in>set run. is_ws c"
    and "rest = [] \<or> \<not> is_ws (hd rest)"
  shows "replace_ws (pre @ run @ rest) = pre @ CHR '' '' # replace_ws rest"
  using assms(1)
proof (induction pre)
  case Nil
  from assms(2) obtain c cs where run: "run = c # cs" by (cases run) auto
  with assms(3) have c: "is_ws c" and cs: "\<And>x. x \<in> set cs \<Longrightarrow> is_ws x" by simp_all
  have "dropWhile is_ws (cs @ rest) = dropWhile is_ws rest"
    using cs by (rule dropWhile_append2)
  also have "\<dots> = rest"
    using assms(4) by (simp add: dropWhile_eq_self_iff)
  finally show ?case
    using run c by simp
next
  case (Cons a pre)
  then show ?case by simp
qed

lemma normalize_content_stages:
  "normalize_content s = (if 10000 < length (stages s) then take 10000 (stages s) @ ''...'' else stages s)"
  by (simp add: normalize_content_def stages_def Let_def)

lemma stages_normal: "no_tag (stages s) \<and> collapsed (stages s) \<and> trimmed (stages s)"
  unfolding stages_def
  by (intro conjI no_tag_trim no_tag_replace_ws no_tag_replace_tags
      collapsed_trim collapsed_replace_ws trimmed_trim)

lemma stages_fixed:
  assumes "no_tag u" and "collapsed u" and "trimmed u"
  shows "stages u = u"
  unfolding stages_def
  by (simp only: no_tag_replace_id [OF assms(1)] collapsed_replace_id [OF assms(2)]
      trimmed_trim_id [OF assms(3)])

lemma truncated_normal:
  assumes t: "no_tag t" "collapsed t" "trimmed t" and len: "10000 < length t"
  shows "no_tag (take 10000 t @ ''...'') \<and> collapsed (take 10000 t @ ''...'')
    \<and> trimmed (take 10000 t @ ''...'')"
proof (intro conjI)
  show "no_tag (take 10000 t @ ''...'')"
    using no_tag_take [OF t(1), of 10000] by (simp add: no_tag_append)
  show "collapsed (take 10000 t @ ''...'')"
    by (rule collapsed_appendI) (simp_all add: collapsed_take [OF t(2)])
  from len have ne: "t \<noteq> []" by auto
  with t(3) have "\<not> is_ws (hd t)" by (simp add: trimmed_def)
  moreover from len ne have "hd (take 10000 t @ ''...'') = hd t"
    by (cases t) simp_all
  ultimately show "trimmed (take 10000 t @ ''...'')"
    by (simp add: trimmed_def)
qed

lemma plain_text_fixed:
  assumes "\<forall>c\<in>set s. \<not> is_ws c \<and> c \<noteq> CHR ''<''"
  shows "trim (replace_ws (replace_tags s)) = s"
proof -
  have "no_tag s" using assms by (induction s) auto
  then have a: "replace_tags s = s" by (rule no_tag_replace_id)
  have b: "replace_ws s = s" using assms by (simp add: replace_ws_no_ws)
  have "trimmed s" using assms by (cases s) (auto simp: trimmed_def)
  then have "trim s = s" by (rule trimmed_trim_id)
  with a b show ?thesis by simp
qed

subsection \<open>Claims on the normalizer\<close>

text \<open>
  \<^bold>\<open>C3.\<close> The normalizer applies its transforms in this order. (a) Tag stripping: a
  substring that starts at the first \<^verbatim>\<open><\<close> and runs to the first \<^verbatim>\<open>>\<close> behind
  it (the maximal match of \<^verbatim>\<open><[^>]*>\<close>, which may itself contain \<^verbatim>\<open><\<close>) is
  replaced by one space and the rest is treated the same way; a text with no \<^verbatim>\<open><\<close>
  before a \<^verbatim>\<open>>\<close> is unchanged. (b) A maximal run of whitespace characters (space,
  tab and line feed among them) becomes one space, text without whitespace is unchanged,
  and trimming removes the whitespace at both ends. Then a result longer than 10,000
  characters is cut to its first 10,000 characters followed by \<^verbatim>\<open>...\<close>; in
  particular a result of length 10,001 yields 10,003 characters, and a result of length
  at most 10,000 is returned unchanged.
\<close>

theorem normalize_content_transforms:
  "normalize_content s =
     (let t = trim (replace_ws (replace_tags s))
      in if 10000 < length t then take 10000 t @ ''...'' else t)
   \<and> (CHR ''<'' \<notin> set pre \<and> CHR ''>'' \<notin> set inner \<longrightarrow>
        replace_tags (pre @ ''<'' @ inner @ ''>'' @ rest) = pre @ '' '' @ replace_tags rest)
   \<and> (\<not> (\<exists>i j. i < j \<and> j < length u \<and> u ! i = CHR ''<'' \<and> u ! j = CHR ''>'') \<longrightarrow>
        replace_tags u = u)
   \<and> is_ws (CHR '' '') \<and> is_ws (CHR 0x09) \<and> is_ws (CHR 0x0A)
   \<and> ((\<forall>c\<in>set pre'. \<not> is_ws c) \<and> run \<noteq> [] \<and> (\<forall>c\<in>set run. is_ws c)
        \<and> (rest' = [] \<or> \<not> is_ws (hd rest')) \<longrightarrow>
        replace_ws (pre' @ run @ rest') = pre' @ '' '' @ replace_ws rest')
   \<and> ((\<forall>c\<in>set v. \<not> is_ws c) \<longrightarrow> replace_ws v = v)
   \<and> ((\<forall>c\<in>set l. is_ws c) \<and> (\<forall>c\<in>set r. is_ws c)
        \<and> (m = [] \<or> (\<not> is_ws (hd m) \<and> \<not> is_ws (last m))) \<longrightarrow>
        trim (l @ m @ r) = m)
   \<and> (length (trim (replace_ws (replace_tags s1))) = 10001 \<longrightarrow>
        normalize_content s1 = take 10000 (trim (replace_ws (replace_tags s1))) @ ''...''
        \<and> length (normalize_content s1) = 10003)
   \<and> (length (trim (replace_ws (replace_tags s2))) \<le> 10000 \<longrightarrow>
        normalize_content s2 = trim (replace_ws (replace_tags s2)))"
proof (intro conjI impI)
  show "normalize_content s =
     (let t = trim (replace_ws (replace_tags s))
      in if 10000 < length t then take 10000 t @ ''...'' else t)"
    by (simp add: normalize_content_def Let_def)
next
  assume "CHR ''<'' \<notin> set pre \<and> CHR ''>'' \<notin> set inner"
  then show "replace_tags (pre @ ''<'' @ inner @ ''>'' @ rest) = pre @ '' '' @ replace_tags rest"
    using replace_tags_first [of pre inner rest] by simp
next
  assume "\<not> (\<exists>i j. i < j \<and> j < length u \<and> u ! i = CHR ''<'' \<and> u ! j = CHR ''>'')"
  then have "no_tag u" by (rule no_tag_nth)
  then show "replace_tags u = u" by (rule no_tag_replace_id)
next
  show "is_ws (CHR '' '')" "is_ws (CHR 0x09)" "is_ws (CHR 0x0A)"
    by (simp_all add: is_ws_def)
next
  assume "(\<forall>c\<in>set pre'. \<not> is_ws c) \<and> run \<noteq> [] \<and> (\<forall>c\<in>set run. is_ws c)
        \<and> (rest' = [] \<or> \<not> is_ws (hd rest'))"
  then show "replace_ws (pre' @ run @ rest') = pre' @ '' '' @ replace_ws rest'"
    using replace_ws_run [of pre' run rest'] by simp
next
  assume "\<forall>c\<in>set v. \<not> is_ws c"
  then show "replace_ws v = v" by (rule replace_ws_no_ws)
next
  assume "(\<forall>c\<in>set l. is_ws c) \<and> (\<forall>c\<in>set r. is_ws c)
        \<and> (m = [] \<or> (\<not> is_ws (hd m) \<and> \<not> is_ws (last m)))"
  then show "trim (l @ m @ r) = m"
    using trim_sandwich [of l r m] by blast
next
  assume len: "length (trim (replace_ws (replace_tags s1))) = 10001"
  then show "normalize_content s1 = take 10000 (trim (replace_ws (replace_tags s1))) @ ''...''"
    by (simp add: normalize_content_def Let_def)
  with len show "length (normalize_content s1) = 10003"
    by simp
next
  assume "length (trim (replace_ws (replace_tags s2))) \<le> 10000"
  then show "normalize_content s2 = trim (replace_ws (replace_tags s2))"
    by (simp add: normalize_content_def Let_def)
qed

text \<open>The transforms at concrete texts, among them one of 10,001 characters.\<close>

theorem normalize_content_transforms_witness:
  "normalize_content ''<p>Hello   <b>World</b> </p>'' = ''Hello World''
   \<and> replace_tags (''a '' @ ''<'' @ ''b<c'' @ ''>'' @ ''d'') = ''a  d''
   \<and> replace_tags ''a > b < c'' = ''a > b < c''
   \<and> replace_ws (''ab'' @ [CHR 0x09, CHR 0x0A, CHR '' ''] @ ''cd'') = ''ab cd''
   \<and> replace_ws ''abc'' = ''abc''
   \<and> trim ('' '' @ ''a b'' @ [CHR 0x0A]) = ''a b''
   \<and> length (normalize_content (replicate 10001 (CHR ''a''))) = 10003
   \<and> normalize_content (replicate 10001 (CHR ''a'')) = replicate 10000 (CHR ''a'') @ ''...''
   \<and> normalize_content ''  plain  text  '' = ''plain text''"
proof -
  have big: "trim (replace_ws (replace_tags (replicate 10001 (CHR ''a''))))
      = replicate 10001 (CHR ''a'')"
    by (rule plain_text_fixed) (simp add: is_ws_def)
  have nomatch:
    "\<not> (\<exists>i j. i < j \<and> j < length ''a > b < c'' \<and> ''a > b < c'' ! i = CHR ''<''
        \<and> ''a > b < c'' ! j = CHR ''>'')"
  proof
    assume "\<exists>i j. i < j \<and> j < length ''a > b < c'' \<and> ''a > b < c'' ! i = CHR ''<''
        \<and> ''a > b < c'' ! j = CHR ''>''"
    then obtain i j where ij: "i < j" "j < 9" "''a > b < c'' ! i = CHR ''<''"
        "''a > b < c'' ! j = CHR ''>''"
      by auto
    from ij(2,4) have "j = 2"
      by (auto simp: less_Suc_eq numeral_nat nth_Cons')
    moreover from ij(1,2,3) have "i = 6"
      by (auto simp: less_Suc_eq numeral_nat nth_Cons')
    ultimately show False using ij(1) by simp
  qed
  note T = normalize_content_transforms
    [where s = "''<p>Hello   <b>World</b> </p>''"
       and pre = "''a ''" and inner = "''b<c''" and rest = "''d''"
       and u = "''a > b < c''"
       and pre' = "''ab''" and run = "[CHR 0x09, CHR 0x0A, CHR '' '']" and rest' = "''cd''"
       and v = "''abc''"
       and l = "'' ''" and m = "''a b''" and r = "[CHR 0x0A]"
       and ?s1.0 = "replicate 10001 (CHR ''a'')"
       and ?s2.0 = "''  plain  text  ''"]
  have long: "length (normalize_content (replicate 10001 (CHR ''a''))) = 10003
      \<and> normalize_content (replicate 10001 (CHR ''a'')) = replicate 10000 (CHR ''a'') @ ''...''"
    using T big by simp
  have short: "normalize_content ''<p>Hello   <b>World</b> </p>'' = ''Hello World''
      \<and> replace_tags (''a '' @ ''<'' @ ''b<c'' @ ''>'' @ ''d'') = ''a  d''
      \<and> replace_tags ''a > b < c'' = ''a > b < c''
      \<and> replace_ws (''ab'' @ [CHR 0x09, CHR 0x0A, CHR '' ''] @ ''cd'') = ''ab cd''
      \<and> replace_ws ''abc'' = ''abc''
      \<and> trim ('' '' @ ''a b'' @ [CHR 0x0A]) = ''a b''
      \<and> normalize_content ''  plain  text  '' = ''plain text''"
    using T nomatch by (simp add: is_ws_def trim_def)
  from long short show ?thesis by simp
qed

text \<open>
  \<^bold>\<open>C4.\<close> Normalization is idempotent: normalizing an already normalized text yields
  the same text.
\<close>

theorem normalize_content_idempotent:
  "normalize_content (normalize_content s) = normalize_content s"
proof (cases "10000 < length (stages s)")
  case False
  then have eq: "normalize_content s = stages s"
    by (simp add: normalize_content_stages)
  have "stages (stages s) = stages s"
    using stages_normal [of s] by (simp add: stages_fixed)
  with False show ?thesis
    unfolding eq by (simp add: normalize_content_stages)
next
  case True
  let ?u = "take 10000 (stages s) @ ''...''"
  from True have eq: "normalize_content s = ?u"
    by (simp add: normalize_content_stages)
  have "stages ?u = ?u"
    using truncated_normal [OF _ _ _ True] stages_normal [of s] by (simp add: stages_fixed)
  moreover from True have "length ?u = 10003" by simp
  moreover from True have "take 10000 ?u = take 10000 (stages s)" by simp
  ultimately have "normalize_content ?u = ?u"
    by (simp add: normalize_content_stages)
  then show ?thesis
    unfolding eq .
qed

text \<open>Idempotence at a concrete page.\<close>

theorem normalize_content_idempotent_witness:
  "normalize_content (normalize_content ''<p>Hello   <b>World</b> </p>'')
     = normalize_content ''<p>Hello   <b>World</b> </p>''
   \<and> normalize_content ''<p>Hello   <b>World</b> </p>'' = ''Hello World''"
  using normalize_content_idempotent [of "''<p>Hello   <b>World</b> </p>''"]
  by (simp add: normalize_content_def is_ws_def trim_def)

subsection \<open>Lemmas on makeRequest and the concrete runtime\<close>




lemma fixture_simps:
  "JSON_parse fixture = fixture_parse" "url_parse fixture = fixture_url_parse"
  "transport fixture = fixture_transport" "request_cyclic fixture = True"
  "engine_text fixture site = (''failed: '' @ site, ''Error: failed: '' @ site)"
  by (simp_all add: fixture_def)

lemmas fixture_requests =
  null_request_def page_request_def gone_request_def data_request_def down_request_def
  empty_url_request_def





subsection \<open>Lemmas on the two entry points\<close>

lemma handler_POST:
  "httpMethod ev = ''POST'' \<Longrightarrow>
   handler rt e ev =
     (case handler_try rt e ev of
        (Resolved r, calls) \<Rightarrow> (Resolved r, calls)
      | (Rejected error, calls) \<Rightarrow> (handler_catch rt error, calls))"
  by (simp add: handler_def)

lemma server_POST:
  "request_method req = ''POST'' \<Longrightarrow>
   url_pathname (url_parse rt (request_url req)) = Some ''/summarize'' \<Longrightarrow>
   server rt cfg req =
     (case server_try rt cfg req of
        (Resolved r, calls) \<Rightarrow> (r, calls)
      | (Rejected error, calls) \<Rightarrow> (server_catch error, calls))"
  by (simp add: server_def Let_def)

lemma handler_catch_status:
  "status_of (handler_catch rt error) =
     (if err_request error \<and> request_cyclic rt then None
      else Some (case err_response error of
                   Some r \<Rightarrow> if fail_status r = 0 then 500 else fail_status r
                 | None \<Rightarrow> 500))"
  by (simp add: handler_catch_def status_of_def split: option.split)

lemma server_catch_status [simp]: "statusCode (server_catch error) = 500"
  by (simp add: server_catch_def)

lemma native_shape [simp]:
  "err_response (native rt site) = None" "err_request (native rt site) = False"
  by (simp_all add: native_def)













lemma truthy_payload [simp]: "truthy (gemini_payload p)"
  by (simp add: gemini_payload_def)


text \<open>The request object matters to the handler's log line only.\<close>

lemma on_end_request_cyclic [simp]:
  "on_end (rt\<lparr>request_cyclic := b\<rparr>) res = on_end rt res"
  by (simp add: on_end_def)

lemma build_wire_request_cyclic [simp]:
  "build_wire (rt\<lparr>request_cyclic := b\<rparr>) u opts d = build_wire rt u opts d"
  by (simp add: build_wire_def)

lemma makeRequest_request_cyclic [simp]:
  "makeRequest (rt\<lparr>request_cyclic := b\<rparr>) u opts d = makeRequest rt u opts d"
  by (cases u) (simp_all add: makeRequest_def native_def Let_def split: net_outcome.split)

subsection \<open>The concrete runtime evaluated\<close>
























subsection \<open>Claims on makeRequest\<close>





subsection \<open>Claims on routing\<close>

text \<open>
  \<^bold>\<open>C8.\<close> An invocation of the handler whose \<^verbatim>\<open>httpMethod\<close> is neither
  \<^verbatim>\<open>OPTIONS\<close> nor \<^verbatim>\<open>POST\<close> returns status 405, the body
  \<^verbatim>\<open>{"error": "Method not allowed"}\<close> and the CORS headers, whatever the request
  body and the runtime are (the body is not parsed), and issues no outbound request.
\<close>

theorem handler_method_not_allowed:
  assumes "httpMethod ev \<noteq> ''OPTIONS''" and "httpMethod ev \<noteq> ''POST''"
  shows "handler rt e ev =
    (Resolved \<lparr>statusCode = 405,
               headers = [(''Access-Control-Allow-Origin'', ''*''),
                          (''Access-Control-Allow-Headers'', ''Content-Type''),
                          (''Access-Control-Allow-Methods'', ''POST, OPTIONS'')],
               body = Some (JObj [(''error'', JStr ''Method not allowed'')])\<rparr>,
     [])"
  using assms by (simp add: handler_def cors_headers_def json_object_def)

text \<open>A \<^verbatim>\<open>GET\<close> invocation.\<close>

theorem handler_method_not_allowed_witness:
  "handler fixture fixture_env
      \<lparr>httpMethod = ''GET'', event_body = ''{oops''\<rparr> =
    (Resolved \<lparr>statusCode = 405,
               headers = [(''Access-Control-Allow-Origin'', ''*''),
                          (''Access-Control-Allow-Headers'', ''Content-Type''),
                          (''Access-Control-Allow-Methods'', ''POST, OPTIONS'')],
               body = Some (JObj [(''error'', JStr ''Method not allowed'')])\<rparr>,
     [])"
  using handler_method_not_allowed
    [of "\<lparr>httpMethod = ''GET'', event_body = ''{oops''\<rparr>" fixture fixture_env]
  by simp

text \<open>
  \<^bold>\<open>C9.\<close> A request to the server that is not an \<^verbatim>\<open>OPTIONS\<close> request, not
  \<^verbatim>\<open>GET\<close> on the path \<^verbatim>\<open>/\<close> and not \<^verbatim>\<open>POST\<close> on the path
  \<^verbatim>\<open>/summarize\<close> is answered with status 404 and the body
  \<^verbatim>\<open>{"error": "Not found"}\<close>.
\<close>

theorem server_not_found:
  assumes "request_method req \<noteq> ''OPTIONS''"
    and "\<not> (url_pathname (url_parse rt (request_url req)) = Some ''/'' \<and> request_method req = ''GET'')"
    and "\<not> (url_pathname (url_parse rt (request_url req)) = Some ''/summarize'' \<and> request_method req = ''POST'')"
  shows "server rt cfg req =
    (\<lparr>statusCode = 404,
      headers = [(''Access-Control-Allow-Origin'', ''*''),
                 (''Access-Control-Allow-Methods'', ''GET, POST, OPTIONS''),
                 (''Access-Control-Allow-Headers'', ''Content-Type''),
                 (''Content-Type'', ''application/json'')],
      body = Some (JObj [(''error'', JStr ''Not found'')])\<rparr>,
     [])"
  using assms
  by (auto simp: server_def Let_def json_headers_def server_headers_def json_object_def)

text \<open>\<^verbatim>\<open>GET /summarize\<close>: the path is served for \<^verbatim>\<open>POST\<close> only.\<close>

theorem server_not_found_witness:
  "server fixture fixture_server_env
      \<lparr>request_method = ''GET'', request_url = ''/summarize'', request_body = []\<rparr> =
    (\<lparr>statusCode = 404,
      headers = [(''Access-Control-Allow-Origin'', ''*''),
                 (''Access-Control-Allow-Methods'', ''GET, POST, OPTIONS''),
                 (''Access-Control-Allow-Headers'', ''Content-Type''),
                 (''Content-Type'', ''application/json'')],
      body = Some (JObj [(''error'', JStr ''Not found'')])\<rparr>,
     [])
   \<and> url_pathname (url_parse fixture ''/summarize'') = Some ''/summarize''"
  using server_not_found
    [of "\<lparr>request_method = ''GET'', request_url = ''/summarize'', request_body = []\<rparr>" fixture
       fixture_server_env]
  by (simp add: fixture_simps fixture_url_parse_def Let_def)

subsection \<open>Claims on request validation\<close>

text \<open>
  \<^bold>\<open>C2\<close> (the code at the input where it departs from the claim). The body
  \<^verbatim>\<open>null\<close> parses as JSON and has no \<^verbatim>\<open>url\<close> field, but destructuring
  \<^verbatim>\<open>null\<close> throws before the check for a missing URL is reached: the handler and the
  server both answer 500, not 400. No outbound request is issued.
\<close>

theorem null_body_is_server_error:
  assumes "httpMethod ev = ''POST''"
    and "request_method req = ''POST''"
    and "url_pathname (url_parse rt (request_url req)) = Some ''/summarize''"
    and "JSON_parse rt (event_body ev) = Some JNull"
    and "JSON_parse rt (request_body req) = Some JNull"
  shows "status_of (fst (handler rt e ev)) = Some 500
    \<and> statusCode (fst (server rt cfg req)) = 500
    \<and> snd (handler rt e ev) = [] \<and> snd (server rt cfg req) = []"
  using assms
  by (simp add: handler_POST server_POST handler_try_def server_try_def handler_catch_status)

text \<open>The body \<^verbatim>\<open>null\<close> on the concrete runtime.\<close>

theorem null_body_is_server_error_witness:
  "fixture_parse null_request = Some JNull
   \<and> status_of (fst (handler fixture fixture_env (post_event null_request))) = Some 500
   \<and> statusCode (fst (server fixture fixture_server_env (post_request null_request))) = 500
   \<and> snd (handler fixture fixture_env (post_event null_request)) = []
   \<and> snd (server fixture fixture_server_env (post_request null_request)) = []"
  using null_body_is_server_error
    [of "post_event null_request" "post_request null_request" fixture fixture_env fixture_server_env]
  by (simp add: post_event_def post_request_def fixture_simps fixture_parse_def
      fixture_url_parse_def null_request_def Let_def)

text \<open>
  \<^bold>\<open>C5\<close> (the code at the input where it departs from the claim). For a body that
  is not valid JSON the server answers 400 with \<^verbatim>\<open>Invalid JSON in request body\<close>,
  while in the handler the failure of \<^verbatim>\<open>JSON.parse\<close> falls through to the last
  branch of the \<^verbatim>\<open>catch\<close> block: status 500 with \<^verbatim>\<open>Unexpected error\<close>.
\<close>

theorem unparsable_body_status:
  assumes "httpMethod ev = ''POST''"
    and "request_method req = ''POST''"
    and "url_pathname (url_parse rt (request_url req)) = Some ''/summarize''"
    and "JSON_parse rt (event_body ev) = None"
    and "JSON_parse rt (request_body req) = None"
  shows "status_of (fst (handler rt e ev)) = Some 500
    \<and> body_of (fst (handler rt e ev)) =
        Some (JObj [(''error'', JStr ''Unexpected error''),
                    (''message'', JStr (fst (engine_text rt ''JSON.parse''))),
                    (''stack'', JStr (snd (engine_text rt ''JSON.parse'')))])
    \<and> statusCode (fst (server rt cfg req)) = 400
    \<and> body (fst (server rt cfg req)) =
        Some (JObj [(''error'', JStr ''Invalid JSON in request body'')])"
  using assms
  by (simp add: handler_POST server_POST handler_try_def server_try_def handler_catch_def
      status_of_def body_of_def native_def json_object_def optional_def)

text \<open>The body \<^verbatim>\<open>{oops\<close> on the concrete runtime.\<close>

theorem unparsable_body_status_witness:
  "fixture_parse ''{oops'' = None
   \<and> status_of (fst (handler fixture fixture_env (post_event ''{oops''))) = Some 500
   \<and> statusCode (fst (server fixture fixture_server_env (post_request ''{oops''))) = 400"
  using unparsable_body_status
    [of "post_event ''{oops''" "post_request ''{oops''" fixture fixture_env fixture_server_env]
  by (simp add: post_event_def post_request_def fixture_simps fixture_parse_def
      fixture_url_parse_def fixture_requests gemini_json_def Let_def)

subsection \<open>Claims on failure reporting\<close>




subsection \<open>Claims on the two variants together\<close>




end
